theory Spec2Isabelle
  imports Main
begin

section \<open>The configuration module of stm32pio (stm32pio/core/settings.py)\<close>

text \<open>
  The module computes its values once, when it is loaded, from the process environment,
  the platform and the file system. The model makes these inputs explicit as one record,
  the \<open>world\<close>, and turns every statement of the module into a function of it. An
  exception that leaves a statement is the \<open>Inl\<close> branch of a sum type.
\<close>

subsection \<open>Python strings\<close>

text \<open>A Python \<open>str\<close> is a list of characters. The backslash and the newline are named.\<close>

definition bslash :: char where
  "bslash = CHR 0x5C"

definition newline :: char where
  "newline = CHR 0x0A"

text \<open>\<open>s.split(c)\<close> for a one-character separator: every field, the empty ones too.\<close>

fun str_split :: "char \<Rightarrow> string \<Rightarrow> string list" where
  "str_split c [] = [[]]"
| "str_split c (x # xs) =
     (if x = c then [] # str_split c xs
      else (case str_split c xs of
              [] \<Rightarrow> [[x]]
            | y # ys \<Rightarrow> (x # y) # ys))"

text \<open>\<open>c.join(parts)\<close>.\<close>

fun str_join :: "char \<Rightarrow> string list \<Rightarrow> string" where
  "str_join c [] = []"
| "str_join c [x] = x"
| "str_join c (x # y # ys) = x @ c # str_join c (y # ys)"

text \<open>\<open>s.lstrip(c)\<close> and \<open>s.replace(a, b)\<close> for single characters.\<close>

definition lstrip :: "char \<Rightarrow> string \<Rightarrow> string" where
  "lstrip c s = dropWhile (\<lambda>x. x = c) s"

definition str_replace :: "char \<Rightarrow> char \<Rightarrow> string \<Rightarrow> string" where
  "str_replace a b s = map (\<lambda>x. if x = a then b else x) s"

text \<open>\<open>s.find(c, start)\<close>: the first index at or after \<open>start\<close> that holds \<open>c\<close>;
  \<open>None\<close> is Python's \<open>-1\<close>.\<close>

fun find_idx :: "char \<Rightarrow> string \<Rightarrow> nat \<Rightarrow> nat option" where
  "find_idx c [] i = None"
| "find_idx c (x # xs) i = (if x = c then Some i else find_idx c xs (Suc i))"

definition str_find :: "char \<Rightarrow> string \<Rightarrow> nat \<Rightarrow> nat option" where
  "str_find c s start = find_idx c (drop start s) start"

text \<open>\<open>s.lower()\<close> on code points below 256: the ASCII capitals and the Latin-1 capitals
  (all of 0xC0 .. 0xDE but the multiplication sign 0xD7) move up by 32.\<close>

definition lower_char :: "char \<Rightarrow> char" where
  "lower_char c =
     (let n = of_char c :: nat
      in if (65 \<le> n \<and> n \<le> 90) \<or> (192 \<le> n \<and> n \<le> 222 \<and> n \<noteq> 215)
         then char_of (n + 32) else c)"

definition lower :: "string \<Rightarrow> string" where
  "lower s = map lower_char s"

subsection \<open>pathlib: pure paths (CPython 3.11)\<close>

text \<open>
  \<open>Path(...)\<close> is a \<open>WindowsPath\<close> when \<open>os.name == 'nt'\<close> and a \<open>PosixPath\<close>
  otherwise. A path object is the triple \<open>(_drv, _root, _parts)\<close> that pathlib keeps.
\<close>

datatype flavour = Posix | Windows

record path =
  drv :: string
  root :: string
  parts :: "string list"

definition sep :: "flavour \<Rightarrow> char" where
  "sep fl = (case fl of Posix \<Rightarrow> CHR ''/'' | Windows \<Rightarrow> bslash)"

text \<open>\<open>part.replace(altsep, sep)\<close>, done only when the flavour has an \<open>altsep\<close>.\<close>

definition replace_altsep :: "flavour \<Rightarrow> string \<Rightarrow> string" where
  "replace_altsep fl part =
     (case fl of Posix \<Rightarrow> part | Windows \<Rightarrow> str_replace (CHR ''/'') bslash part)"

text \<open>\<open>_PosixFlavour.splitroot\<close>.\<close>

definition splitroot_posix :: "string \<Rightarrow> string \<times> string \<times> string" where
  "splitroot_posix part =
     (if part \<noteq> [] \<and> hd part = CHR ''/'' then
        (let stripped_part = lstrip (CHR ''/'') part
         in if length part - length stripped_part = 2
            then ('''', ''//'', stripped_part)
            else ('''', ''/'', stripped_part))
      else ('''', '''', part))"

text \<open>\<open>_WindowsFlavour._split_extended_path\<close>, with the prefix \<open>\\?\\\<close>.\<close>

definition ext_namespace_prefix :: string where
  "ext_namespace_prefix = [bslash, bslash, CHR ''?'', bslash]"

definition split_extended_path :: "string \<Rightarrow> string \<times> string" where
  "split_extended_path s =
     (if take 4 s = ext_namespace_prefix then
        (let prefix = take 4 s; s1 = drop 4 s
         in if take 4 s1 = ''UNC'' @ [bslash]
            then (prefix @ take 3 s1, bslash # drop 3 s1)
            else (prefix, s1))
      else ('''', s))"

definition drive_letters :: "char set" where
  "drive_letters = set ''abcdefghijklmnopqrstuvwxyzABCDEFGHIJKLMNOPQRSTUVWXYZ''"

text \<open>\<open>_WindowsFlavour.splitroot\<close>: first the UNC form, then drive letter and root.\<close>

definition splitroot_unc :: "string \<Rightarrow> string \<Rightarrow> (string \<times> string \<times> string) option" where
  "splitroot_unc prefix part =
     (case str_find bslash part 2 of
        None \<Rightarrow> None
      | Some index \<Rightarrow>
          (let found2 = str_find bslash part (index + 1)
           in if found2 \<noteq> Some (index + 1) then
                (let index2 = (case found2 of None \<Rightarrow> length part | Some j \<Rightarrow> j)
                 in if prefix \<noteq> ''''
                    then Some (prefix @ drop 1 (take index2 part), [bslash],
                               drop (index2 + 1) part)
                    else Some (take index2 part, [bslash], drop (index2 + 1) part))
              else None))"

definition splitroot_windows :: "string \<Rightarrow> string \<times> string \<times> string" where
  "splitroot_windows part0 =
     (let (prefix, part) =
            (if take 1 (drop 1 part0) = [bslash] \<and> take 1 part0 = [bslash]
             then split_extended_path part0 else ('''', part0));
          first = take 1 part;
          second = take 1 (drop 1 part);
          third = take 1 (drop 2 part);
          unc = (if second = [bslash] \<and> first = [bslash] \<and> third \<noteq> [bslash]
                 then splitroot_unc prefix part else None)
      in case unc of
           Some r \<Rightarrow> r
         | None \<Rightarrow>
             (let (drv1, part1, first1) =
                    (if second = '':'' \<and> first \<noteq> [] \<and> hd first \<in> drive_letters
                     then (take 2 part, drop 2 part, third)
                     else ('''', part, first));
                  (root1, part2) =
                    (if first1 = [bslash] then (first1, lstrip bslash part1)
                     else ('''', part1))
              in (prefix @ drv1, root1, part2)))"

definition splitroot :: "flavour \<Rightarrow> string \<Rightarrow> string \<times> string \<times> string" where
  "splitroot fl part =
     (case fl of Posix \<Rightarrow> splitroot_posix part | Windows \<Rightarrow> splitroot_windows part)"

text \<open>
  \<open>_Flavour.parse_parts\<close>. The outer loop reads the parts from the last to the first
  and stops at the first one with a drive or a root; the inner loop then looks for a
  drive in the parts before it. \<open>parsed\<close> is built in reverse and turned round at the end.
\<close>

fun find_drv :: "flavour \<Rightarrow> string list \<Rightarrow> string" where
  "find_drv fl [] = ''''"
| "find_drv fl (part # it) =
     (if part = '''' then find_drv fl it
      else (let d = fst (splitroot fl (replace_altsep fl part))
            in if d \<noteq> '''' then d else find_drv fl it))"

definition rel_names :: "flavour \<Rightarrow> string \<Rightarrow> string list" where
  "rel_names fl rel =
     (if sep fl \<in> set rel
      then filter (\<lambda>x. x \<noteq> '''' \<and> x \<noteq> ''.'') (rev (str_split (sep fl) rel))
      else (if rel \<noteq> '''' \<and> rel \<noteq> ''.'' then [rel] else []))"

fun parse_loop :: "flavour \<Rightarrow> string list \<Rightarrow> string list \<Rightarrow> string \<times> string \<times> string list" where
  "parse_loop fl [] parsed = ('''', '''', parsed)"
| "parse_loop fl (part # it) parsed =
     (if part = '''' then parse_loop fl it parsed
      else (case splitroot fl (replace_altsep fl part) of
              (d, r, rel) \<Rightarrow>
                (let parsed' = parsed @ rel_names fl rel
                 in if d \<noteq> '''' \<or> r \<noteq> ''''
                    then ((if d = '''' then find_drv fl it else d), r, parsed')
                    else parse_loop fl it parsed')))"

definition parse_parts :: "flavour \<Rightarrow> string list \<Rightarrow> path" where
  "parse_parts fl ps =
     (case parse_loop fl (rev ps) [] of
        (d, r, parsed) \<Rightarrow>
          \<lparr>drv = d, root = r,
           parts = rev (if d \<noteq> '''' \<or> r \<noteq> '''' then parsed @ [d @ r] else parsed)\<rparr>)"

text \<open>\<open>_Flavour.join_parsed_parts\<close>; \<open>casefold\<close> is \<open>lower\<close> on Windows, the identity on POSIX.\<close>

definition casefold :: "flavour \<Rightarrow> string \<Rightarrow> string" where
  "casefold fl s = (case fl of Posix \<Rightarrow> s | Windows \<Rightarrow> lower s)"

definition join_parsed_parts :: "flavour \<Rightarrow> path \<Rightarrow> path \<Rightarrow> path" where
  "join_parsed_parts fl p p2 =
     (if root p2 \<noteq> '''' then
        (if drv p2 = '''' \<and> drv p \<noteq> ''''
         then \<lparr>drv = drv p, root = root p2, parts = (drv p @ root p2) # tl (parts p2)\<rparr>
         else p2)
      else if drv p2 \<noteq> '''' then
        (if drv p2 = drv p \<or> casefold fl (drv p2) = casefold fl (drv p)
         then \<lparr>drv = drv p, root = root p, parts = parts p @ tl (parts p2)\<rparr>
         else p2)
      else \<lparr>drv = drv p, root = root p, parts = parts p @ parts p2\<rparr>)"

text \<open>\<open>Path(s)\<close> for a string, \<open>Path(p)\<close> for a path, \<open>p / key\<close>, \<open>p.parent\<close>, \<open>str(p)\<close>.\<close>

definition Path :: "flavour \<Rightarrow> string \<Rightarrow> path" where
  "Path fl s = parse_parts fl [s]"

definition Path_of_path :: "flavour \<Rightarrow> path \<Rightarrow> path" where
  "Path_of_path fl p = parse_parts fl (parts p)"

definition truediv :: "flavour \<Rightarrow> path \<Rightarrow> string \<Rightarrow> path" where
  "truediv fl p key = join_parsed_parts fl p (parse_parts fl [key])"

definition parent :: "path \<Rightarrow> path" where
  "parent p =
     (if length (parts p) = 1 \<and> (drv p \<noteq> '''' \<or> root p \<noteq> '''') then p
      else p\<lparr>parts := butlast (parts p)\<rparr>)"

definition format_parsed_parts :: "flavour \<Rightarrow> path \<Rightarrow> string" where
  "format_parsed_parts fl p =
     (if drv p \<noteq> '''' \<or> root p \<noteq> ''''
      then drv p @ root p @ str_join (sep fl) (tl (parts p))
      else str_join (sep fl) (parts p))"

definition str :: "flavour \<Rightarrow> path \<Rightarrow> string" where
  "str fl p = (let s = format_parsed_parts fl p in if s = '''' then ''.'' else s)"

subsection \<open>The world the module reads\<close>

text \<open>
  \<open>Path.stat()\<close> either succeeds, on a directory or on something else, or fails.
  \<open>Path.exists()\<close> and \<open>Path.is_dir()\<close> answer \<open>False\<close> when it fails with one of
  the errors pathlib ignores (ENOENT, ENOTDIR, EBADF, ELOOP, a path that cannot be
  encoded) and let every other \<open>OSError\<close> (EACCES, for one) through to the caller.
\<close>

datatype stat_result = S_DIR | S_OTHER | E_IGNORED | E_RAISED

datatype exn = TypeError | OSError | RuntimeError | UnicodeDecodeError

record world =
  my_os :: string
  os_name :: string
  environ :: "string \<Rightarrow> string option"
  stat :: "string \<Rightarrow> stat_result"
  access_X_OK :: "string \<Rightarrow> bool"
  which :: "string \<Rightarrow> string option"
  expanduser_tilde :: string
  read_text :: "string \<Rightarrow> exn + string"
  module_file :: string

text \<open>
  The fields are \<open>platform.system()\<close>, \<open>os.name\<close> (it chooses the class of \<open>Path\<close>),
  \<open>os.environ.get\<close>, \<open>os.stat\<close> of a path string, \<open>os.access(s, os.X_OK)\<close>,
  \<open>shutil.which\<close>, \<open>os.path.expanduser('~')\<close>, \<open>Path.read_text()\<close> of a path string
  and \<open>__file__\<close>.
\<close>

definition flv :: "world \<Rightarrow> flavour" where
  "flv w = (if os_name w = ''nt'' then Windows else Posix)"

definition path_exists :: "world \<Rightarrow> path \<Rightarrow> exn + bool" where
  "path_exists w p =
     (case stat w (str (flv w) p) of
        S_DIR \<Rightarrow> Inr True
      | S_OTHER \<Rightarrow> Inr True
      | E_IGNORED \<Rightarrow> Inr False
      | E_RAISED \<Rightarrow> Inl OSError)"

definition is_dir :: "world \<Rightarrow> path \<Rightarrow> exn + bool" where
  "is_dir w p =
     (case stat w (str (flv w) p) of
        S_DIR \<Rightarrow> Inr True
      | S_OTHER \<Rightarrow> Inr False
      | E_IGNORED \<Rightarrow> Inr False
      | E_RAISED \<Rightarrow> Inl OSError)"

text \<open>\<open>Path.home()\<close> is \<open>Path("~").expanduser()\<close>: it raises when the home directory
  is still unexpanded.\<close>

definition home :: "world \<Rightarrow> exn + path" where
  "home w =
     (let homedir = expanduser_tilde w
      in if take 1 homedir = ''~'' then Inl RuntimeError
         else Inr (parse_parts (flv w) [homedir]))"

subsection \<open>\<open>_find_cubemx_executable\<close>\<close>

definition env_vars :: "string list" where
  "env_vars = [''STM32CUBEMX_HOME'', ''STM32_CUBEMX_HOME'', ''STM32_CUBEMX'', ''STM32CUBEMX'',
               ''STM32_CUBEMX_PATH'', ''STM32CUBEMX_PATH'']"

definition candidates :: "world \<Rightarrow> path \<Rightarrow> path list" where
  "candidates w p =
     [truediv (flv w) p ''STM32CubeMX'',
      truediv (flv w) p ''STM32CubeMX.exe'',
      truediv (flv w) (truediv (flv w) (truediv (flv w) (truediv (flv w) p ''STM32CubeMX.app'')
        ''Contents'') ''MacOS'') ''STM32CubeMX'']"

text \<open>The loop over the candidates inside a directory: no \<open>try\<close> around \<open>c.exists()\<close>.\<close>

fun first_existing :: "world \<Rightarrow> path list \<Rightarrow> exn + string option" where
  "first_existing w [] = Inr None"
| "first_existing w (c # cs) =
     (case path_exists w c of
        Inl e \<Rightarrow> Inl e
      | Inr True \<Rightarrow> Inr (Some (str (flv w) c))
      | Inr False \<Rightarrow> first_existing w cs)"

text \<open>The body of the loop over the environment variables, for one variable \<open>v\<close>:
  \<open>Inr (Some r)\<close> is \<open>return r\<close>, \<open>Inr None\<close> goes on to the next variable.\<close>

definition env_probe :: "world \<Rightarrow> string \<Rightarrow> exn + string option" where
  "env_probe w v =
     (case environ w v of
        None \<Rightarrow> Inr None
      | Some val \<Rightarrow>
          if val = '''' then Inr None
          else (let p = Path (flv w) val
                in case path_exists w p of
                     Inl e \<Rightarrow> Inl e
                   | Inr False \<Rightarrow> Inr None
                   | Inr True \<Rightarrow>
                       (case is_dir w p of
                          Inl e \<Rightarrow> Inl e
                        | Inr True \<Rightarrow> first_existing w (candidates w p)
                        | Inr False \<Rightarrow> Inr (Some (str (flv w) p)))))"

fun env_loop :: "world \<Rightarrow> string list \<Rightarrow> exn + string option" where
  "env_loop w [] = Inr None"
| "env_loop w (v # vs) =
     (case env_probe w v of
        Inl e \<Rightarrow> Inl e
      | Inr (Some r) \<Rightarrow> Inr (Some r)
      | Inr None \<Rightarrow> env_loop w vs)"

text \<open>\<open>shutil.which(exec_name) or shutil.which('STM32CubeMX')\<close>: \<open>None\<close> and the empty
  string are false.\<close>

definition truthy :: "string option \<Rightarrow> bool" where
  "truthy x = (case x of None \<Rightarrow> False | Some s \<Rightarrow> s \<noteq> '''')"

definition which_path :: "world \<Rightarrow> string option" where
  "which_path w =
     (let exec_name = (if my_os w = ''Windows'' then ''STM32CubeMX.exe'' else ''STM32CubeMX'');
          a = which w exec_name
      in if truthy a then a else which w ''STM32CubeMX'')"

text \<open>The list \<open>common\<close>. On Linux \<open>Path.home()\<close> is evaluated while the list is built,
  outside the \<open>try\<close> of the loop that follows.\<close>

definition common :: "world \<Rightarrow> exn + path list" where
  "common w =
     (if my_os w = ''Windows'' then
        Inr [Path (flv w) ''C:/Program Files/STMicroelectronics/STM32Cube/STM32CubeMX/STM32CubeMX.exe'',
             Path (flv w) ''C:/Program Files (x86)/STMicroelectronics/STM32Cube/STM32CubeMX/STM32CubeMX.exe'',
             Path (flv w) ''C:/Program Files/STMicroelectronics/STM32CubeMX/STM32CubeMX.exe'',
             truediv (flv w) (truediv (flv w) (truediv (flv w)
               (Path (flv w) (case environ w ''LOCALAPPDATA'' of None \<Rightarrow> '''' | Some s \<Rightarrow> s))
               ''Programs'') ''STM32CubeMX'') ''STM32CubeMX.exe'']
      else if my_os w = ''Darwin'' then
        Inr [Path (flv w) ''/Applications/STMicroelectronics/STM32CubeMX.app/Contents/MacOS/STM32CubeMX'']
      else if my_os w = ''Linux'' then
        (case home w of
           Inl e \<Rightarrow> Inl e
         | Inr h \<Rightarrow>
             Inr [truediv (flv w) (truediv (flv w) h ''STM32CubeMX'') ''STM32CubeMX'',
                  Path (flv w) ''/usr/local/bin/STM32CubeMX'',
                  Path (flv w) ''/usr/bin/STM32CubeMX''])
      else Inr [])"

text \<open>The loop over \<open>common\<close>: an exception of \<open>p.exists()\<close> is caught and the loop
  goes on. A path object is always true.\<close>

fun first_common :: "world \<Rightarrow> path list \<Rightarrow> string" where
  "first_common w [] = ''''"
| "first_common w (p # ps) =
     (case path_exists w p of
        Inr True \<Rightarrow> str (flv w) p
      | Inr False \<Rightarrow> first_common w ps
      | Inl e \<Rightarrow> first_common w ps)"

definition find_after_env :: "world \<Rightarrow> exn + string" where
  "find_after_env w =
     (if truthy (which_path w) then Inr (case which_path w of Some s \<Rightarrow> s | None \<Rightarrow> '''')
      else (case common w of
              Inl e \<Rightarrow> Inl e
            | Inr ps \<Rightarrow> Inr (first_common w ps)))"

definition find_cubemx_executable :: "world \<Rightarrow> exn + string" where
  "find_cubemx_executable w =
     (case env_loop w env_vars of
        Inl e \<Rightarrow> Inl e
      | Inr (Some r) \<Rightarrow> Inr r
      | Inr None \<Rightarrow> find_after_env w)"

subsection \<open>\<open>_find_java_bundled_with_cubemx\<close>\<close>

definition java_candidates :: "world \<Rightarrow> string \<Rightarrow> path list" where
  "java_candidates w cubemx_path =
     (let p = Path (flv w) cubemx_path;
          install_dir = parent p;
          java_name = (if my_os w = ''Windows'' then ''java.exe'' else ''java'')
      in [truediv (flv w) (truediv (flv w) (truediv (flv w) install_dir ''jre'') ''bin'') java_name,
          truediv (flv w) (truediv (flv w) (truediv (flv w) (parent install_dir) ''jre'') ''bin'')
            java_name,
          truediv (flv w) (truediv (flv w) (truediv (flv w) (parent p) ''jre'') ''bin'') ''java''])"

text \<open>\<open>c.exists() and os.access(str(c), os.X_OK)\<close> inside \<open>try\<close>: an exception counts as
  a candidate that did not match.\<close>

definition java_ok :: "world \<Rightarrow> path \<Rightarrow> bool" where
  "java_ok w c =
     (case path_exists w c of
        Inl e \<Rightarrow> False
      | Inr b \<Rightarrow> b \<and> access_X_OK w (str (flv w) c))"

fun first_java :: "world \<Rightarrow> path list \<Rightarrow> string" where
  "first_java w [] = ''''"
| "first_java w (c # cs) = (if java_ok w c then str (flv w) c else first_java w cs)"

definition find_java_bundled_with_cubemx :: "world \<Rightarrow> string \<Rightarrow> string" where
  "find_java_bundled_with_cubemx w cubemx_path =
     (if cubemx_path = '''' then ''''
      else first_java w (java_candidates w cubemx_path))"

subsection \<open>The default configuration\<close>

record app_section =
  platformio_cmd :: string
  cubemx_cmd :: string
  java_cmd :: string

record project_section =
  cubemx_script_content :: string
  platformio_ini_patch_content :: string
  board :: string
  ioc_file :: string
  cleanup_ignore :: string
  cleanup_use_git :: bool
  inspect_ioc :: bool

record config =
  app :: app_section
  project :: project_section

text \<open>\<open>_detected_cubemx\<close>: the locator's result, or the fallback of the platform when the
  result is empty. The Linux fallback calls \<open>Path.home()\<close> again.\<close>

definition cubemx_fallback :: "world \<Rightarrow> exn + string" where
  "cubemx_fallback w =
     (if my_os w = ''Darwin''
      then Inr ''/Applications/STMicroelectronics/STM32CubeMX.app/Contents/MacOs/STM32CubeMX''
      else if my_os w = ''Linux'' then
        (case home w of
           Inl e \<Rightarrow> Inl e
         | Inr h \<Rightarrow> Inr (str (flv w) (truediv (flv w) h ''STM32CubeMX/STM32CubeMX'')))
      else if my_os w = ''Windows''
      then Inr ''C:/Program Files/STMicroelectronics/STM32Cube/STM32CubeMX/STM32CubeMX.exe''
      else Inr '''')"

definition detected_cubemx :: "world \<Rightarrow> exn + string" where
  "detected_cubemx w =
     (case find_cubemx_executable w of
        Inl e \<Rightarrow> Inl e
      | Inr d \<Rightarrow> if d = '''' then cubemx_fallback w else Inr d)"

text \<open>\<open>_detected_java\<close>, from the value of \<open>_detected_cubemx\<close>.\<close>

definition java_fallback :: "world \<Rightarrow> string" where
  "java_fallback w =
     (if my_os w = ''Windows''
      then ''C:/Program Files/STMicroelectronics/STM32Cube/STM32CubeMX/jre/bin/java.exe''
      else ''None'')"

definition detected_java :: "world \<Rightarrow> string \<Rightarrow> string" where
  "detected_java w cubemx =
     (let j = find_java_bundled_with_cubemx w cubemx
      in if j = '''' then java_fallback w else j)"

text \<open>The two templates, after \<open>inspect.cleandoc\<close>.\<close>

definition default_cubemx_script_content :: string where
  "default_cubemx_script_content =
     ''config load ${ioc_file_absolute_path}'' @ [newline] @
     ''generate code ${project_dir_absolute_path}'' @ [newline] @
     ''exit''"

definition default_platformio_ini_patch_content :: string where
  "default_platformio_ini_patch_content =
     ''[platformio]'' @ [newline] @
     ''include_dir = Inc'' @ [newline] @
     ''src_dir = Src''"

definition default_project :: project_section where
  "default_project =
     \<lparr>cubemx_script_content = default_cubemx_script_content,
      platformio_ini_patch_content = default_platformio_ini_patch_content,
      board = '''',
      ioc_file = '''',
      cleanup_ignore = '''',
      cleanup_use_git = False,
      inspect_ioc = True\<rparr>"

text \<open>\<open>config_default\<close> as the \<open>dict(...)\<close> call of the module builds it, before the
  part of the module that looks at the CI variable.\<close>

definition config_default :: "world \<Rightarrow> exn + config" where
  "config_default w =
     (case detected_cubemx w of
        Inl e \<Rightarrow> Inl e
      | Inr c \<Rightarrow>
          Inr \<lparr>app = \<lparr>platformio_cmd = ''platformio'',
                       cubemx_cmd = c,
                       java_cmd = detected_java w c\<rparr>,
               project = default_project\<rparr>)"

subsection \<open>The CI part of the module\<close>

text \<open>\<open>Path(os.environ.get('STM32PIO_CUBEMX_CACHE_FOLDER'))\<close>: \<open>Path(None)\<close> raises
  \<open>TypeError\<close>.\<close>

definition ci_app :: "world \<Rightarrow> exn + app_section" where
  "ci_app w =
     (case environ w ''STM32PIO_CUBEMX_CACHE_FOLDER'' of
        None \<Rightarrow> Inl TypeError
      | Some folder \<Rightarrow>
          Inr \<lparr>platformio_cmd = ''platformio'',
               cubemx_cmd = str (flv w) (truediv (flv w) (Path (flv w) folder) ''STM32CubeMX.exe''),
               java_cmd = ''java''\<rparr>)"

text \<open>\<open>TEST_FIXTURES_PATH\<close>: the variable's value, or the default next to the module;
  \<open>Path(...)\<close> is applied to either.\<close>

definition TEST_FIXTURES_PATH :: "world \<Rightarrow> path" where
  "TEST_FIXTURES_PATH w =
     (case environ w ''STM32PIO_TEST_FIXTURES'' of
        Some s \<Rightarrow> Path (flv w) s
      | None \<Rightarrow>
          Path_of_path (flv w)
            (truediv (flv w) (parent (Path (flv w) (module_file w))) ''../../tests/fixtures''))"

definition platformio_ini_lockfile :: "world \<Rightarrow> string \<Rightarrow> path" where
  "platformio_ini_lockfile w test_case =
     truediv (flv w) (truediv (flv w) (TEST_FIXTURES_PATH w) test_case) ''platformio.ini.lockfile''"

text \<open>\<open>patch_mixin\<close>. \<open>TEST_FIXTURES_PATH\<close> is a path object and so never \<open>None\<close>.\<close>

definition patch_mixin :: "world \<Rightarrow> exn + string" where
  "patch_mixin w =
     (case environ w ''STM32PIO_TEST_CASE'' of
        None \<Rightarrow> Inr ''''
      | Some test_case \<Rightarrow>
          (case path_exists w (platformio_ini_lockfile w test_case) of
             Inl e \<Rightarrow> Inl e
           | Inr False \<Rightarrow> Inr ''''
           | Inr True \<Rightarrow>
               (case read_text w (str (flv w) (platformio_ini_lockfile w test_case)) of
                  Inl e \<Rightarrow> Inl e
                | Inr text \<Rightarrow> Inr ([newline, newline] @ text))))"

definition ci_override :: "world \<Rightarrow> config \<Rightarrow> exn + config" where
  "ci_override w cfg =
     (case environ w ''PIPELINE_WORKSPACE'' of
        None \<Rightarrow> Inr cfg
      | Some marker \<Rightarrow>
          (case ci_app w of
             Inl e \<Rightarrow> Inl e
           | Inr a \<Rightarrow>
               (case patch_mixin w of
                  Inl e \<Rightarrow> Inl e
                | Inr m \<Rightarrow>
                    Inr \<lparr>app = a,
                         project = (project cfg)
                           \<lparr>platformio_ini_patch_content :=
                              platformio_ini_patch_content (project cfg) @ m\<rparr>\<rparr>)))"

text \<open>Loading the module: the default configuration, then the CI part.\<close>

definition load :: "world \<Rightarrow> exn + config" where
  "load w =
     (case config_default w of
        Inl e \<Rightarrow> Inl e
      | Inr cfg \<Rightarrow> ci_override w cfg)"

subsection \<open>Some worlds\<close>

text \<open>A Linux machine on which nothing is set and nothing is installed.\<close>

definition base_world :: world where
  "base_world =
     \<lparr>my_os = ''Linux'', os_name = ''posix'',
      environ = (\<lambda>v. None),
      stat = (\<lambda>s. E_IGNORED),
      access_X_OK = (\<lambda>s. False),
      which = (\<lambda>n. None),
      expanduser_tilde = ''/home/user'',
      read_text = (\<lambda>s. Inl OSError),
      module_file = ''/repo/stm32pio/core/settings.py''\<rparr>"

text \<open>CubeMX installed under \<open>/opt/cubemx\<close> with its own executable \<open>jre/bin/java\<close>.\<close>

definition java_world :: world where
  "java_world =
     base_world
       \<lparr>stat := (\<lambda>s. if s = ''/opt/cubemx/jre/bin/java'' then S_OTHER else E_IGNORED),
        access_X_OK := (\<lambda>s. s = ''/opt/cubemx/jre/bin/java'')\<rparr>"

text \<open>The first variable names a directory with no executable in it, the second one a
  file; \<open>STM32CubeMX\<close> is on the search path as well.\<close>

definition env_world :: world where
  "env_world =
     base_world
       \<lparr>environ := map_of [(''STM32CUBEMX_HOME'', ''/opt/empty''),
                           (''STM32_CUBEMX_HOME'', ''/opt/cubemx/STM32CubeMX'')],
        stat := (\<lambda>s. if s = ''/opt/empty'' then S_DIR
                      else if s = ''/opt/cubemx/STM32CubeMX'' then S_OTHER
                      else E_IGNORED),
        which := (\<lambda>n. Some ''/usr/bin/STM32CubeMX'')\<rparr>"

text \<open>The third variable alone is set and names a directory with no executable in it;
  \<open>STM32CubeMX\<close> is on the search path.\<close>

definition dir_world :: world where
  "dir_world =
     base_world
       \<lparr>environ := map_of [(''STM32_CUBEMX'', ''/opt/empty'')],
        stat := (\<lambda>s. if s = ''/opt/empty'' then S_DIR else E_IGNORED),
        which := (\<lambda>n. if n = ''STM32CubeMX'' then Some ''/usr/local/bin/STM32CubeMX''
                       else None)\<rparr>"

text \<open>The first variable names a path below a directory the process may not search:
  \<open>os.stat\<close> fails with EACCES.\<close>

definition locked_world :: world where
  "locked_world =
     base_world
       \<lparr>environ := map_of [(''STM32CUBEMX_HOME'', ''/root/cubemx'')],
        stat := (\<lambda>s. if s = ''/root/cubemx'' then E_RAISED else E_IGNORED)\<rparr>"

text \<open>CI machines: the marker and the cache folder set, on Linux and on Windows; the
  marker alone.\<close>

definition ci_world :: world where
  "ci_world =
     base_world
       \<lparr>environ := map_of [(''PIPELINE_WORKSPACE'', ''/agent/1''),
                           (''STM32PIO_CUBEMX_CACHE_FOLDER'', ''/cache'')]\<rparr>"

definition ci_world_nt :: world where
  "ci_world_nt = ci_world\<lparr>my_os := ''Windows'', os_name := ''nt''\<rparr>"

definition ci_world_no_cache :: world where
  "ci_world_no_cache =
     base_world\<lparr>environ := map_of [(''PIPELINE_WORKSPACE'', ''/agent/1'')]\<rparr>"

text \<open>A CI machine with a test case chosen and no fixtures variable: the lock file of the
  test case lies in the fixtures directory next to the module.\<close>

definition lockfile_text :: string where
  "lockfile_text = ''[env:nucleo_f031k6]''"

definition fixtures_world :: world where
  "fixtures_world =
     base_world
       \<lparr>environ := map_of [(''PIPELINE_WORKSPACE'', ''/agent/1''),
                           (''STM32PIO_CUBEMX_CACHE_FOLDER'', ''/cache''),
                           (''STM32PIO_TEST_CASE'', ''nucleo_f031k6'')],
        stat := (\<lambda>s. if s = ''/repo/stm32pio/core/../../tests/fixtures/nucleo_f031k6/platformio.ini.lockfile''
                      then S_OTHER else E_IGNORED),
        read_text := (\<lambda>s. if s = ''/repo/stm32pio/core/../../tests/fixtures/nucleo_f031k6/platformio.ini.lockfile''
                           then Inr lockfile_text else Inl OSError)\<rparr>"

section \<open>Properties\<close>

subsection \<open>Shared facts\<close>

lemma str_nonempty: "str f p \<noteq> ''''"
  by (simp add: str_def Let_def)

lemma first_java_find:
  "first_java w cs = (case find (java_ok w) cs of None \<Rightarrow> '''' | Some c \<Rightarrow> str (flv w) c)"
  by (induction cs) simp_all

lemma first_java_empty: "first_java w cs = '''' \<longleftrightarrow> (\<forall>c \<in> set cs. \<not> java_ok w c)"
  by (induction cs) (simp_all add: str_nonempty)

lemma java_ok_iff:
  "java_ok w c \<longleftrightarrow> path_exists w c = Inr True \<and> access_X_OK w (str (flv w) c)"
  by (auto simp: java_ok_def split: sum.splits)

lemma first_existing_nonempty: "first_existing w cs \<noteq> Inr (Some '''')"
  by (induction cs) (auto simp: str_nonempty split: sum.splits bool.splits)

lemma env_probe_nonempty: "env_probe w v \<noteq> Inr (Some '''')"
  by (auto simp: env_probe_def Let_def str_nonempty first_existing_nonempty
           split: option.splits sum.splits bool.splits)

lemma env_loop_nonempty: "env_loop w vs \<noteq> Inr (Some '''')"
  by (induction vs) (auto simp: env_probe_nonempty split: sum.splits option.splits)

lemma env_loop_first:
  "\<forall>u \<in> set pre. env_probe w u = Inr None \<Longrightarrow>
   env_loop w (pre @ v # post) =
     (case env_probe w v of Inl e \<Rightarrow> Inl e | Inr (Some r) \<Rightarrow> Inr (Some r)
      | Inr None \<Rightarrow> env_loop w post)"
  by (induction pre) simp_all

text \<open>The loop over the environment variables reads neither \<open>my_os\<close> nor
  \<open>shutil.which\<close> nor the home directory.\<close>

lemma flv_indep:
  "flv (w\<lparr>my_os := os, which := wh, expanduser_tilde := h\<rparr>) = flv w"
  by (simp add: flv_def)

lemma path_exists_indep:
  "path_exists (w\<lparr>my_os := os, which := wh, expanduser_tilde := h\<rparr>) p = path_exists w p"
  by (simp add: path_exists_def flv_indep)

lemma is_dir_indep:
  "is_dir (w\<lparr>my_os := os, which := wh, expanduser_tilde := h\<rparr>) p = is_dir w p"
  by (simp add: is_dir_def flv_indep)

lemma first_existing_indep:
  "first_existing (w\<lparr>my_os := os, which := wh, expanduser_tilde := h\<rparr>) cs
     = first_existing w cs"
  by (induction cs) (simp_all add: path_exists_indep flv_indep split: sum.splits bool.splits)

lemma env_probe_indep:
  "env_probe (w\<lparr>my_os := os, which := wh, expanduser_tilde := h\<rparr>) v = env_probe w v"
  unfolding env_probe_def candidates_def path_exists_indep is_dir_indep flv_indep
    first_existing_indep
  by simp

lemma env_loop_indep:
  "env_loop (w\<lparr>my_os := os, which := wh, expanduser_tilde := h\<rparr>) vs = env_loop w vs"
  by (induction vs) (simp_all add: env_probe_indep split: sum.splits option.splits)

lemma env_probe_file:
  "environ w v = Some val \<Longrightarrow> val \<noteq> '''' \<Longrightarrow>
   stat w (str (flv w) (Path (flv w) val)) = S_OTHER \<Longrightarrow>
   env_probe w v = Inr (Some (str (flv w) (Path (flv w) val)))"
  by (simp add: env_probe_def path_exists_def is_dir_def)

text \<open>Taking a variable out of the environment changes no probe of the file system.\<close>

lemma flv_environ: "flv (w\<lparr>environ := e\<rparr>) = flv w"
  by (simp add: flv_def)

lemma path_exists_environ: "path_exists (w\<lparr>environ := e\<rparr>) p = path_exists w p"
  by (simp add: path_exists_def flv_environ)

lemma is_dir_environ: "is_dir (w\<lparr>environ := e\<rparr>) p = is_dir w p"
  by (simp add: is_dir_def flv_environ)

lemma first_existing_environ: "first_existing (w\<lparr>environ := e\<rparr>) cs = first_existing w cs"
  by (induction cs)
     (simp_all add: path_exists_environ flv_environ split: sum.splits bool.splits)

lemma first_common_environ: "first_common (w\<lparr>environ := e\<rparr>) ps = first_common w ps"
  by (induction ps)
     (simp_all add: path_exists_environ flv_environ split: sum.splits bool.splits)

lemma env_probe_same:
  "e u = environ w u \<Longrightarrow> env_probe (w\<lparr>environ := e\<rparr>) u = env_probe w u"
  unfolding env_probe_def candidates_def path_exists_environ is_dir_environ flv_environ
    first_existing_environ
  by simp

lemma env_probe_unset: "e v = None \<Longrightarrow> env_probe (w\<lparr>environ := e\<rparr>) v = Inr None"
  by (simp add: env_probe_def)

lemma env_loop_unset:
  assumes "env_probe w v = Inr None" and "e v = None" and "\<forall>u. u \<noteq> v \<longrightarrow> e u = environ w u"
  shows "env_loop (w\<lparr>environ := e\<rparr>) vs = env_loop w vs"
proof (induction vs)
  case Nil
  show ?case by simp
next
  case (Cons u vs)
  show ?case
  proof (cases "u = v")
    case True
    have "env_probe (w\<lparr>environ := e\<rparr>) v = Inr None"
      using assms(2) by (rule env_probe_unset)
    with True Cons assms(1) show ?thesis by simp
  next
    case False
    with assms(3) have "env_probe (w\<lparr>environ := e\<rparr>) u = env_probe w u"
      by (simp add: env_probe_same)
    with Cons show ?thesis by (simp split: sum.splits option.splits)
  qed
qed

lemma find_after_env_unset:
  assumes "e ''LOCALAPPDATA'' = environ w ''LOCALAPPDATA''"
  shows "find_after_env (w\<lparr>environ := e\<rparr>) = find_after_env w"
proof -
  have wp: "which_path (w\<lparr>environ := e\<rparr>) = which_path w"
    by (simp add: which_path_def Let_def)
  have hm: "home (w\<lparr>environ := e\<rparr>) = home w"
    by (simp add: home_def Let_def flv_environ)
  have cm: "common (w\<lparr>environ := e\<rparr>) = common w"
    using assms by (simp add: common_def hm flv_environ split: sum.splits)
  show ?thesis
    by (simp add: find_after_env_def wp cm first_common_environ split: sum.splits)
qed

text \<open>A variable whose turn yields nothing can be left out of the loop; a loop in which
  no turn yields anything ends without a result.\<close>

lemma env_loop_skip:
  "env_probe w v = Inr None \<Longrightarrow> env_loop w (pre @ v # post) = env_loop w (pre @ post)"
  by (induction pre) (simp_all split: sum.splits option.splits)

lemma env_loop_all_none:
  "\<forall>x \<in> set vs. env_probe w x = Inr None \<Longrightarrow> env_loop w vs = Inr None"
  by (induction vs) simp_all

lemma first_existing_none:
  "\<forall>c \<in> set cs. stat w (str (flv w) c) = E_IGNORED \<Longrightarrow> first_existing w cs = Inr None"
  by (induction cs) (simp_all add: path_exists_def)

text \<open>When the locator returns the empty string on Linux, \<open>Path.home()\<close> has returned.\<close>

lemma find_empty_after_env:
  assumes "find_cubemx_executable w = Inr ''''"
  shows "find_after_env w = Inr ''''"
proof (cases "env_loop w env_vars")
  case (Inl e)
  with assms show ?thesis by (simp add: find_cubemx_executable_def)
next
  case (Inr r)
  show ?thesis
  proof (cases r)
    case None
    with Inr assms show ?thesis by (simp add: find_cubemx_executable_def)
  next
    case (Some s)
    with Inr assms have "env_loop w env_vars = Inr (Some '''')"
      by (simp add: find_cubemx_executable_def)
    with env_loop_nonempty show ?thesis by blast
  qed
qed

lemma find_empty_home:
  assumes "find_cubemx_executable w = Inr ''''" and "my_os w = ''Linux''"
  shows "home w = Inr (parse_parts (flv w) [expanduser_tilde w])"
proof -
  from assms(1) have fa: "find_after_env w = Inr ''''"
    by (rule find_empty_after_env)
  have nt: "\<not> truthy (which_path w)"
  proof
    assume t: "truthy (which_path w)"
    then obtain s where "which_path w = Some s" "s \<noteq> ''''"
      by (auto simp: truthy_def split: option.splits)
    with fa t show False by (simp add: find_after_env_def)
  qed
  with fa obtain ps where "common w = Inr ps"
    by (auto simp: find_after_env_def split: sum.splits)
  with assms(2) obtain h where h: "home w = Inr h"
    by (auto simp: common_def split: sum.splits)
  then show ?thesis
    by (auto simp: home_def Let_def split: if_splits)
qed

lemma cache_posix:
  "str Posix (truediv Posix (Path Posix ''/cache'') ''STM32CubeMX.exe'') = ''/cache/STM32CubeMX.exe''"
  by code_simp

lemma cache_windows:
  "str Windows (truediv Windows (Path Windows ''/cache'') ''STM32CubeMX.exe'')
     = bslash # ''cache'' @ bslash # ''STM32CubeMX.exe''"
  by code_simp

subsection \<open>The companion-runtime locator\<close>

text \<open>
  Claim C9. \<open>_find_java_bundled_with_cubemx\<close> returns the empty string for an empty path,
  in every world, so whatever the file system holds. For a non-empty path it returns the
  empty string exactly when none of its three candidates both exists and is executable,
  and otherwise the string of the first candidate that exists and is executable.
\<close>

theorem find_java_bundled_spec:
  "find_java_bundled_with_cubemx w '''' = '''' \<and>
   (cubemx_path \<noteq> '''' \<longrightarrow>
      (find_java_bundled_with_cubemx w cubemx_path = '''' \<longleftrightarrow>
         (\<forall>c \<in> set (java_candidates w cubemx_path).
            \<not> (path_exists w c = Inr True \<and> access_X_OK w (str (flv w) c)))) \<and>
      (\<forall>c. find (\<lambda>c. path_exists w c = Inr True \<and> access_X_OK w (str (flv w) c))
              (java_candidates w cubemx_path) = Some c \<longrightarrow>
           find_java_bundled_with_cubemx w cubemx_path = str (flv w) c))"
proof -
  have ok: "(\<lambda>c. path_exists w c = Inr True \<and> access_X_OK w (str (flv w) c)) = java_ok w"
    by (rule ext) (simp add: java_ok_iff)
  have first: "first_java w cs = str (flv w) c" if "find (java_ok w) cs = Some c" for cs c
    using that by (simp add: first_java_find)
  show ?thesis
  proof (intro conjI impI allI)
    show "find_java_bundled_with_cubemx w '''' = ''''"
      by (simp add: find_java_bundled_with_cubemx_def)
  next
    assume "cubemx_path \<noteq> ''''"
    then show "find_java_bundled_with_cubemx w cubemx_path = '''' \<longleftrightarrow>
         (\<forall>c \<in> set (java_candidates w cubemx_path).
            \<not> (path_exists w c = Inr True \<and> access_X_OK w (str (flv w) c)))"
      by (simp add: find_java_bundled_with_cubemx_def first_java_empty java_ok_iff)
  next
    fix c
    assume "cubemx_path \<noteq> ''''"
      and "find (\<lambda>c. path_exists w c = Inr True \<and> access_X_OK w (str (flv w) c))
              (java_candidates w cubemx_path) = Some c"
    then show "find_java_bundled_with_cubemx w cubemx_path = str (flv w) c"
      unfolding ok by (simp add: find_java_bundled_with_cubemx_def first)
  qed
qed

theorem find_java_bundled_spec_witness:
  "''/opt/cubemx/STM32CubeMX'' \<noteq> '''' \<and>
   find (\<lambda>c. path_exists java_world c = Inr True \<and>
              access_X_OK java_world (str (flv java_world) c))
     (java_candidates java_world ''/opt/cubemx/STM32CubeMX'')
     = Some \<lparr>drv = '''', root = ''/'',
             parts = [''/'', ''opt'', ''cubemx'', ''jre'', ''bin'', ''java'']\<rparr> \<and>
   find_java_bundled_with_cubemx java_world ''/opt/cubemx/STM32CubeMX''
     = ''/opt/cubemx/jre/bin/java''"
proof -
  have ne: "''/opt/cubemx/STM32CubeMX'' \<noteq> ''''"
    by simp
  have f: "find (\<lambda>c. path_exists java_world c = Inr True \<and>
                     access_X_OK java_world (str (flv java_world) c))
             (java_candidates java_world ''/opt/cubemx/STM32CubeMX'')
           = Some \<lparr>drv = '''', root = ''/'',
                   parts = [''/'', ''opt'', ''cubemx'', ''jre'', ''bin'', ''java'']\<rparr>"
    by code_simp
  have s: "str (flv java_world)
             \<lparr>drv = '''', root = ''/'',
              parts = [''/'', ''opt'', ''cubemx'', ''jre'', ''bin'', ''java'']\<rparr>
           = ''/opt/cubemx/jre/bin/java''"
    by code_simp
  from find_java_bundled_spec [of java_world "''/opt/cubemx/STM32CubeMX''"] ne f
  have "find_java_bundled_with_cubemx java_world ''/opt/cubemx/STM32CubeMX''
        = str (flv java_world)
            \<lparr>drv = '''', root = ''/'',
             parts = [''/'', ''opt'', ''cubemx'', ''jre'', ''bin'', ''java'']\<rparr>"
    by blast
  with ne f s show ?thesis by simp
qed

subsection \<open>The executable locator\<close>

text \<open>
  Claim C3. Let \<open>v\<close> be one of the candidate variables and let no variable before it in
  the fixed order yield a result. If \<open>v\<close> is set to a non-empty value that names an
  existing file which is not a directory, the locator returns the string of exactly that
  path; more generally the result of \<open>v\<close>, when it has one, is the result of the
  locator. Neither depends on \<open>shutil.which\<close>, on the platform name or on the home
  directory, which only the search-path lookup and the conventional locations read.
\<close>

theorem env_file_wins:
  assumes "env_vars = pre @ v # post"
    and "\<forall>u \<in> set pre. env_probe w u = Inr None"
  shows "(environ w v = Some val \<and> val \<noteq> '''' \<and>
          stat w (str (flv w) (Path (flv w) val)) = S_OTHER \<longrightarrow>
            find_cubemx_executable (w\<lparr>my_os := os, which := wh, expanduser_tilde := h\<rparr>)
              = Inr (str (flv w) (Path (flv w) val))) \<and>
         (env_probe w v = Inr (Some r) \<longrightarrow>
            find_cubemx_executable (w\<lparr>my_os := os, which := wh, expanduser_tilde := h\<rparr>)
              = Inr r)"
proof -
  have win: "find_cubemx_executable (w\<lparr>my_os := os, which := wh, expanduser_tilde := h\<rparr>)
              = Inr r'" if "env_probe w v = Inr (Some r')" for r'
  proof -
    have "env_loop w env_vars = Inr (Some r')"
      unfolding assms(1) using env_loop_first [OF assms(2), of v post] that by simp
    then show ?thesis
      by (simp add: find_cubemx_executable_def env_loop_indep)
  qed
  show ?thesis
    using win env_probe_file by blast
qed

theorem env_file_wins_witness:
  "env_probe env_world ''STM32CUBEMX_HOME'' = Inr None \<and>
   environ env_world ''STM32_CUBEMX_HOME'' = Some ''/opt/cubemx/STM32CubeMX'' \<and>
   stat env_world ''/opt/cubemx/STM32CubeMX'' = S_OTHER \<and>
   find_cubemx_executable
     (env_world\<lparr>my_os := ''Linux'', which := (\<lambda>n. Some ''/usr/bin/STM32CubeMX''),
                 expanduser_tilde := ''~''\<rparr>)
     = Inr ''/opt/cubemx/STM32CubeMX''"
proof -
  have sp: "env_vars = [''STM32CUBEMX_HOME''] @ ''STM32_CUBEMX_HOME'' #
              [''STM32_CUBEMX'', ''STM32CUBEMX'', ''STM32_CUBEMX_PATH'', ''STM32CUBEMX_PATH'']"
    by (simp add: env_vars_def)
  have p1: "env_probe env_world ''STM32CUBEMX_HOME'' = Inr None"
    by code_simp
  then have pre: "\<forall>u \<in> set [''STM32CUBEMX_HOME'']. env_probe env_world u = Inr None"
    by simp
  have v: "environ env_world ''STM32_CUBEMX_HOME'' = Some ''/opt/cubemx/STM32CubeMX''"
    by code_simp
  have s: "str (flv env_world) (Path (flv env_world) ''/opt/cubemx/STM32CubeMX'')
           = ''/opt/cubemx/STM32CubeMX''"
    by code_simp
  have st: "stat env_world ''/opt/cubemx/STM32CubeMX'' = S_OTHER"
    by code_simp
  from env_file_wins [OF sp pre, where val = "''/opt/cubemx/STM32CubeMX''"
      and os = "''Linux''" and wh = "\<lambda>n. Some ''/usr/bin/STM32CubeMX''" and h = "''~''"]
    v st s
  have "find_cubemx_executable
          (env_world\<lparr>my_os := ''Linux'', which := (\<lambda>n. Some ''/usr/bin/STM32CubeMX''),
                      expanduser_tilde := ''~''\<rparr>)
        = Inr ''/opt/cubemx/STM32CubeMX''"
    by simp
  with p1 v st show ?thesis by simp
qed

text \<open>
  Claim C10. Let a candidate variable \<open>v\<close> name an existing directory in which none of
  the three conventional file names exists. Its turn of the loop ends without a result:
  the locator returns neither that directory nor the empty string there, but what the
  loop over the other variables, in their order, and the later stages give. So the first
  other variable that yields a result gives the locator's result; and when no other
  variable yields anything, the locator returns the hit of the search path, if there is
  one, and the first existing conventional location (or the empty string) otherwise. It
  is also what the locator returns in the same world with \<open>v\<close> unset.
\<close>

theorem env_dir_without_executable_skipped:
  assumes "env_vars = pre @ v # post"
    and "environ w v = Some val" and "val \<noteq> ''''"
    and "stat w (str (flv w) (Path (flv w) val)) = S_DIR"
    and "\<forall>c \<in> set (candidates w (Path (flv w) val)). stat w (str (flv w) c) = E_IGNORED"
  shows "env_probe w v = Inr None \<and>
         find_cubemx_executable w
           = find_cubemx_executable (w\<lparr>environ := (environ w)(v := None)\<rparr>) \<and>
         find_cubemx_executable w
           = (case env_loop w (pre @ post) of
                Inl e \<Rightarrow> Inl e
              | Inr (Some r) \<Rightarrow> Inr r
              | Inr None \<Rightarrow> find_after_env w) \<and>
         (\<forall>mid u rest r.
            pre @ post = mid @ u # rest \<and> (\<forall>x \<in> set mid. env_probe w x = Inr None) \<and>
            env_probe w u = Inr (Some r) \<longrightarrow>
              find_cubemx_executable w = Inr r) \<and>
         ((\<forall>x \<in> set (pre @ post). env_probe w x = Inr None) \<longrightarrow>
            (\<forall>s. which_path w = Some s \<and> s \<noteq> '''' \<longrightarrow> find_cubemx_executable w = Inr s) \<and>
            (\<not> truthy (which_path w) \<longrightarrow>
               (\<forall>ps. common w = Inr ps \<longrightarrow>
                  find_cubemx_executable w = Inr (first_common w ps))))"
proof -
  have probe: "env_probe w v = Inr None"
    using assms(2-4) first_existing_none [OF assms(5)]
    by (simp add: env_probe_def path_exists_def is_dir_def)
  have mem: "v \<in> set env_vars"
    unfolding assms(1) by simp
  then have ne: "v \<noteq> ''LOCALAPPDATA''"
    by (auto simp: env_vars_def)
  have loop: "env_loop (w\<lparr>environ := (environ w)(v := None)\<rparr>) env_vars = env_loop w env_vars"
    by (rule env_loop_unset [OF probe]) simp_all
  have rest: "find_after_env (w\<lparr>environ := (environ w)(v := None)\<rparr>) = find_after_env w"
    by (rule find_after_env_unset) (use ne in simp)
  have unset: "find_cubemx_executable w
                 = find_cubemx_executable (w\<lparr>environ := (environ w)(v := None)\<rparr>)"
    unfolding find_cubemx_executable_def loop rest by simp
  have skip: "env_loop w env_vars = env_loop w (pre @ post)"
    unfolding assms(1) using probe by (rule env_loop_skip)
  have others: "find_cubemx_executable w
           = (case env_loop w (pre @ post) of
                Inl e \<Rightarrow> Inl e
              | Inr (Some r) \<Rightarrow> Inr r
              | Inr None \<Rightarrow> find_after_env w)"
    unfolding find_cubemx_executable_def skip by simp
  have first: "find_cubemx_executable w = Inr r"
    if "pre @ post = mid @ u # rest" and "\<forall>x \<in> set mid. env_probe w x = Inr None"
      and "env_probe w u = Inr (Some r)" for mid u rest r
  proof -
    have "env_loop w (pre @ post) = Inr (Some r)"
      unfolding that(1) using env_loop_first [OF that(2), of u rest] that(3) by simp
    with others show ?thesis by simp
  qed
  have later: "find_cubemx_executable w = find_after_env w"
    if "\<forall>x \<in> set (pre @ post). env_probe w x = Inr None"
    using others env_loop_all_none [OF that] by simp
  have hit: "find_cubemx_executable w = Inr s"
    if "\<forall>x \<in> set (pre @ post). env_probe w x = Inr None"
      and "which_path w = Some s \<and> s \<noteq> ''''" for s
    using later [OF that(1)] that(2) by (simp add: find_after_env_def truthy_def)
  have conv: "find_cubemx_executable w = Inr (first_common w ps)"
    if "\<forall>x \<in> set (pre @ post). env_probe w x = Inr None"
      and "\<not> truthy (which_path w)" and "common w = Inr ps" for ps
    using later [OF that(1)] that(2,3) by (simp add: find_after_env_def)
  show ?thesis
    using probe unset others first hit conv by blast
qed

theorem env_dir_without_executable_skipped_witness:
  "(environ env_world ''STM32CUBEMX_HOME'' = Some ''/opt/empty'' \<and>
    stat env_world ''/opt/empty'' = S_DIR \<and>
    env_probe env_world ''STM32_CUBEMX_HOME'' = Inr (Some ''/opt/cubemx/STM32CubeMX'') \<and>
    find_cubemx_executable env_world = Inr ''/opt/cubemx/STM32CubeMX'') \<and>
   (environ dir_world ''STM32_CUBEMX'' = Some ''/opt/empty'' \<and>
    stat dir_world ''/opt/empty'' = S_DIR \<and>
    which_path dir_world = Some ''/usr/local/bin/STM32CubeMX'' \<and>
    find_cubemx_executable dir_world = Inr ''/usr/local/bin/STM32CubeMX'')"
proof -
  have cands: "\<forall>c \<in> set cs. stat w (str (flv w) c) = E_IGNORED"
    if "map (\<lambda>c. stat w (str (flv w) c)) cs = [E_IGNORED, E_IGNORED, E_IGNORED]"
    for w and cs :: "path list"
  proof
    fix c
    assume "c \<in> set cs"
    then have "stat w (str (flv w) c) \<in> set (map (\<lambda>c. stat w (str (flv w) c)) cs)"
      by simp
    then show "stat w (str (flv w) c) = E_IGNORED"
      unfolding that by simp
  qed
  have e1: "env_vars = [] @ ''STM32CUBEMX_HOME'' #
              [''STM32_CUBEMX_HOME'', ''STM32_CUBEMX'', ''STM32CUBEMX'', ''STM32_CUBEMX_PATH'',
               ''STM32CUBEMX_PATH'']"
    by (simp add: env_vars_def)
  have e2: "environ env_world ''STM32CUBEMX_HOME'' = Some ''/opt/empty''"
    by code_simp
  have e3: "''/opt/empty'' \<noteq> ''''"
    by simp
  have e4: "stat env_world (str (flv env_world) (Path (flv env_world) ''/opt/empty'')) = S_DIR"
    by code_simp
  have "map (\<lambda>c. stat env_world (str (flv env_world) c))
          (candidates env_world (Path (flv env_world) ''/opt/empty''))
        = [E_IGNORED, E_IGNORED, E_IGNORED]"
    by code_simp
  then have e5: "\<forall>c \<in> set (candidates env_world (Path (flv env_world) ''/opt/empty'')).
                   stat env_world (str (flv env_world) c) = E_IGNORED"
    by (rule cands)
  have e6: "stat env_world ''/opt/empty'' = S_DIR"
    by code_simp
  have e7: "env_probe env_world ''STM32_CUBEMX_HOME'' = Inr (Some ''/opt/cubemx/STM32CubeMX'')"
    by code_simp
  have e8: "[] @ [''STM32_CUBEMX_HOME'', ''STM32_CUBEMX'', ''STM32CUBEMX'',
                  ''STM32_CUBEMX_PATH'', ''STM32CUBEMX_PATH'']
            = [] @ ''STM32_CUBEMX_HOME'' #
                [''STM32_CUBEMX'', ''STM32CUBEMX'', ''STM32_CUBEMX_PATH'', ''STM32CUBEMX_PATH''] \<and>
            (\<forall>x \<in> set []. env_probe env_world x = Inr None) \<and>
            env_probe env_world ''STM32_CUBEMX_HOME'' = Inr (Some ''/opt/cubemx/STM32CubeMX'')"
    using e7 by simp
  from env_dir_without_executable_skipped [OF e1 e2 e3 e4 e5] e8
  have r1: "find_cubemx_executable env_world = Inr ''/opt/cubemx/STM32CubeMX''"
    by blast
  have d1: "env_vars = [''STM32CUBEMX_HOME'', ''STM32_CUBEMX_HOME''] @ ''STM32_CUBEMX'' #
              [''STM32CUBEMX'', ''STM32_CUBEMX_PATH'', ''STM32CUBEMX_PATH'']"
    by (simp add: env_vars_def)
  have d2: "environ dir_world ''STM32_CUBEMX'' = Some ''/opt/empty''"
    by code_simp
  have d4: "stat dir_world (str (flv dir_world) (Path (flv dir_world) ''/opt/empty'')) = S_DIR"
    by code_simp
  have "map (\<lambda>c. stat dir_world (str (flv dir_world) c))
          (candidates dir_world (Path (flv dir_world) ''/opt/empty''))
        = [E_IGNORED, E_IGNORED, E_IGNORED]"
    by code_simp
  then have d5: "\<forall>c \<in> set (candidates dir_world (Path (flv dir_world) ''/opt/empty'')).
                   stat dir_world (str (flv dir_world) c) = E_IGNORED"
    by (rule cands)
  have d6: "stat dir_world ''/opt/empty'' = S_DIR"
    by code_simp
  have p1: "env_probe dir_world ''STM32CUBEMX_HOME'' = Inr None"
    by code_simp
  have p2: "env_probe dir_world ''STM32_CUBEMX_HOME'' = Inr None"
    by code_simp
  have p3: "env_probe dir_world ''STM32CUBEMX'' = Inr None"
    by code_simp
  have p4: "env_probe dir_world ''STM32_CUBEMX_PATH'' = Inr None"
    by code_simp
  have p5: "env_probe dir_world ''STM32CUBEMX_PATH'' = Inr None"
    by code_simp
  have d7: "\<forall>x \<in> set ([''STM32CUBEMX_HOME'', ''STM32_CUBEMX_HOME''] @
                        [''STM32CUBEMX'', ''STM32_CUBEMX_PATH'', ''STM32CUBEMX_PATH'']).
              env_probe dir_world x = Inr None"
    using p1 p2 p3 p4 p5 by simp
  have d8: "which_path dir_world = Some ''/usr/local/bin/STM32CubeMX''"
    by code_simp
  have d9: "''/usr/local/bin/STM32CubeMX'' \<noteq> ''''"
    by simp
  from env_dir_without_executable_skipped [OF d1 d2 e3 d4 d5] d7 d8 d9
  have r2: "find_cubemx_executable dir_world = Inr ''/usr/local/bin/STM32CubeMX''"
    by blast
  show ?thesis
    by (rule conjI [OF conjI [OF e2 conjI [OF e6 conjI [OF e7 r1]]]
                       conjI [OF d2 conjI [OF d6 conjI [OF d8 r2]]]])
qed

text \<open>
  Claim C2 (the code differs). The loop over the environment variables calls
  \<open>p.exists()\<close> outside any \<open>try\<close>, unlike the loop over the conventional locations:
  in \<open>locked_world\<close>, where \<open>os.stat\<close> of the first variable's value fails with
  EACCES, the error leaves the locator.
\<close>

theorem find_cubemx_executable_raises:
  "environ locked_world ''STM32CUBEMX_HOME'' = Some ''/root/cubemx'' \<and>
   stat locked_world ''/root/cubemx'' = E_RAISED \<and>
   find_cubemx_executable locked_world = Inl OSError"
  by code_simp

subsection \<open>The default configuration\<close>

text \<open>
  Claim C4. When the locator returns the empty string, the default configuration is
  built and its \<open>cubemx_cmd\<close> is the fallback of the platform: a fixed string on Darwin
  and on Windows, the fixed relative path \<open>STM32CubeMX/STM32CubeMX\<close> under the home
  directory on Linux, and the empty string on any other platform. It is empty on no
  platform but those.
\<close>

theorem cubemx_cmd_fallback:
  assumes "find_cubemx_executable w = Inr ''''"
  shows "\<exists>cfg. config_default w = Inr cfg \<and>
           (my_os w = ''Darwin'' \<longrightarrow> cubemx_cmd (app cfg) =
              ''/Applications/STMicroelectronics/STM32CubeMX.app/Contents/MacOs/STM32CubeMX'') \<and>
           (my_os w = ''Linux'' \<longrightarrow>
              (\<exists>h. home w = Inr h \<and>
                   cubemx_cmd (app cfg) = str (flv w) (truediv (flv w) h ''STM32CubeMX/STM32CubeMX''))) \<and>
           (my_os w = ''Windows'' \<longrightarrow> cubemx_cmd (app cfg) =
              ''C:/Program Files/STMicroelectronics/STM32Cube/STM32CubeMX/STM32CubeMX.exe'') \<and>
           (my_os w \<notin> {''Darwin'', ''Linux'', ''Windows''} \<longrightarrow> cubemx_cmd (app cfg) = '''') \<and>
           (my_os w \<in> {''Darwin'', ''Linux'', ''Windows''} \<longrightarrow> cubemx_cmd (app cfg) \<noteq> '''')"
proof -
  have lin: "home w = Inr (parse_parts (flv w) [expanduser_tilde w])" if "my_os w = ''Linux''"
    using assms that by (rule find_empty_home)
  have "\<exists>c. cubemx_fallback w = Inr c"
    by (cases "my_os w = ''Linux''") (simp_all add: cubemx_fallback_def lin)
  then obtain c where c: "cubemx_fallback w = Inr c"
    by blast
  let ?cfg = "\<lparr>app = \<lparr>platformio_cmd = ''platformio'', cubemx_cmd = c,
                          java_cmd = detected_java w c\<rparr>,
                 project = default_project\<rparr>"
  have cfg: "config_default w = Inr ?cfg"
    using assms c by (simp add: config_default_def detected_cubemx_def)
  have "(my_os w = ''Darwin'' \<longrightarrow> c =
              ''/Applications/STMicroelectronics/STM32CubeMX.app/Contents/MacOs/STM32CubeMX'') \<and>
        (my_os w = ''Linux'' \<longrightarrow>
              (\<exists>h. home w = Inr h \<and>
                   c = str (flv w) (truediv (flv w) h ''STM32CubeMX/STM32CubeMX''))) \<and>
        (my_os w = ''Windows'' \<longrightarrow> c =
              ''C:/Program Files/STMicroelectronics/STM32Cube/STM32CubeMX/STM32CubeMX.exe'') \<and>
        (my_os w \<notin> {''Darwin'', ''Linux'', ''Windows''} \<longrightarrow> c = '''') \<and>
        (my_os w \<in> {''Darwin'', ''Linux'', ''Windows''} \<longrightarrow> c \<noteq> '''')"
    using c lin by (auto simp: cubemx_fallback_def str_nonempty split: if_splits)
  with cfg show ?thesis by simp
qed

theorem cubemx_cmd_fallback_witness:
  "find_cubemx_executable base_world = Inr '''' \<and>
   (\<exists>cfg. config_default base_world = Inr cfg \<and>
          cubemx_cmd (app cfg) = ''/home/user/STM32CubeMX/STM32CubeMX'')"
proof -
  have f: "find_cubemx_executable base_world = Inr ''''"
    by code_simp
  have os: "my_os base_world = ''Linux''"
    by code_simp
  have hm: "home base_world = Inr \<lparr>drv = '''', root = ''/'', parts = [''/'', ''home'', ''user'']\<rparr>"
    by code_simp
  have s: "str (flv base_world)
             (truediv (flv base_world)
                \<lparr>drv = '''', root = ''/'', parts = [''/'', ''home'', ''user'']\<rparr>
                ''STM32CubeMX/STM32CubeMX'')
           = ''/home/user/STM32CubeMX/STM32CubeMX''"
    by code_simp
  from cubemx_cmd_fallback [OF f] obtain cfg where
    cfg: "config_default base_world = Inr cfg" and
    lin: "my_os base_world = ''Linux'' \<longrightarrow>
            (\<exists>h. home base_world = Inr h \<and>
                 cubemx_cmd (app cfg)
                   = str (flv base_world) (truediv (flv base_world) h ''STM32CubeMX/STM32CubeMX''))"
    by blast
  from lin os hm s have "cubemx_cmd (app cfg) = ''/home/user/STM32CubeMX/STM32CubeMX''"
    by auto
  with f cfg show ?thesis by blast
qed

text \<open>
  Claim C5. When the companion-runtime locator returns the empty string for the
  \<open>cubemx_cmd\<close> of the default configuration, \<open>java_cmd\<close> is the fixed jre path on
  Windows and the string \<open>None\<close> on every other platform; it is never empty.
\<close>

theorem java_cmd_fallback:
  assumes "config_default w = Inr cfg"
    and "find_java_bundled_with_cubemx w (cubemx_cmd (app cfg)) = ''''"
  shows "java_cmd (app cfg) =
           (if my_os w = ''Windows''
            then ''C:/Program Files/STMicroelectronics/STM32Cube/STM32CubeMX/jre/bin/java.exe''
            else ''None'') \<and>
         java_cmd (app cfg) \<noteq> ''''"
proof -
  from assms(1) obtain c where c: "detected_cubemx w = Inr c"
    and cfg: "cfg = \<lparr>app = \<lparr>platformio_cmd = ''platformio'', cubemx_cmd = c,
                             java_cmd = detected_java w c\<rparr>,
                    project = default_project\<rparr>"
    by (auto simp: config_default_def split: sum.splits)
  from cfg assms(2) have "find_java_bundled_with_cubemx w c = ''''"
    by simp
  then have "detected_java w c = java_fallback w"
    by (simp add: detected_java_def)
  with cfg show ?thesis
    by (simp add: java_fallback_def)
qed

theorem java_cmd_fallback_witness:
  "config_default base_world
     = Inr \<lparr>app = \<lparr>platformio_cmd = ''platformio'',
                    cubemx_cmd = ''/home/user/STM32CubeMX/STM32CubeMX'',
                    java_cmd = ''None''\<rparr>,
            project = default_project\<rparr> \<and>
   find_java_bundled_with_cubemx base_world ''/home/user/STM32CubeMX/STM32CubeMX'' = '''' \<and>
   my_os base_world \<noteq> ''Windows'' \<and>
   ''None'' \<noteq> ''''"
proof -
  let ?cfg = "\<lparr>app = \<lparr>platformio_cmd = ''platformio'',
                          cubemx_cmd = ''/home/user/STM32CubeMX/STM32CubeMX'',
                          java_cmd = ''None''\<rparr>,
                 project = default_project\<rparr>"
  have cd: "config_default base_world = Inr ?cfg"
    by code_simp
  have fj: "find_java_bundled_with_cubemx base_world ''/home/user/STM32CubeMX/STM32CubeMX'' = ''''"
    by code_simp
  then have fj': "find_java_bundled_with_cubemx base_world (cubemx_cmd (app ?cfg)) = ''''"
    by simp
  have os: "my_os base_world \<noteq> ''Windows''"
    by code_simp
  have "java_cmd (app ?cfg) \<noteq> ''''"
    by (rule conjunct2 [OF java_cmd_fallback [OF cd fj']])
  then have ne: "''None'' \<noteq> ''''"
    by simp
  show ?thesis
    by (rule conjI [OF cd conjI [OF fj conjI [OF os ne]]])
qed

subsection \<open>Loading the module and the CI part\<close>

text \<open>
  Claim C1 (the code differs). With the CI marker set and the cache-folder variable
  absent, \<open>Path(None)\<close> raises \<open>TypeError\<close> and loading the module fails.
\<close>

theorem load_raises_without_cache_folder:
  "environ ci_world_no_cache ''PIPELINE_WORKSPACE'' = Some ''/agent/1'' \<and>
   environ ci_world_no_cache ''STM32PIO_CUBEMX_CACHE_FOLDER'' = None \<and>
   load ci_world_no_cache = Inl TypeError"
  by code_simp

text \<open>
  Claim C7. Without the CI marker, loading the module yields the default configuration
  and the CI part changes nothing. With the marker, a module that loads has, in place of
  the \<open>app\<close> section of its default configuration, the CI mapping, built from the
  cache-folder variable alone, and every field of its \<open>project\<close> section but
  \<open>platformio_ini_patch_content\<close> is the default one. The same holds of the CI part
  by itself, whatever configuration it starts from: when it completes, the \<open>app\<close>
  section is the CI mapping and every \<open>project\<close> field but
  \<open>platformio_ini_patch_content\<close> is as it was.
\<close>

theorem ci_override_frame:
  "(environ w ''PIPELINE_WORKSPACE'' = None \<longrightarrow>
      load w = config_default w \<and> ci_override w cfg = Inr cfg) \<and>
   (environ w ''PIPELINE_WORKSPACE'' \<noteq> None \<and> ci_override w cfg = Inr cfg' \<longrightarrow>
      (\<exists>folder. environ w ''STM32PIO_CUBEMX_CACHE_FOLDER'' = Some folder \<and>
         app cfg' = \<lparr>platformio_cmd = ''platformio'',
                     cubemx_cmd = str (flv w) (truediv (flv w) (Path (flv w) folder)
                                                  ''STM32CubeMX.exe''),
                     java_cmd = ''java''\<rparr>) \<and>
      cubemx_script_content (project cfg') = cubemx_script_content (project cfg) \<and>
      board (project cfg') = board (project cfg) \<and>
      ioc_file (project cfg') = ioc_file (project cfg) \<and>
      cleanup_ignore (project cfg') = cleanup_ignore (project cfg) \<and>
      cleanup_use_git (project cfg') = cleanup_use_git (project cfg) \<and>
      inspect_ioc (project cfg') = inspect_ioc (project cfg)) \<and>
   (environ w ''PIPELINE_WORKSPACE'' \<noteq> None \<and> load w = Inr loaded \<longrightarrow>
      (\<exists>dflt. config_default w = Inr dflt \<and> ci_override w dflt = Inr loaded \<and>
         project dflt = default_project) \<and>
      (\<exists>folder. environ w ''STM32PIO_CUBEMX_CACHE_FOLDER'' = Some folder \<and>
         app loaded = \<lparr>platformio_cmd = ''platformio'',
                       cubemx_cmd = str (flv w) (truediv (flv w) (Path (flv w) folder)
                                                    ''STM32CubeMX.exe''),
                       java_cmd = ''java''\<rparr>) \<and>
      cubemx_script_content (project loaded) = default_cubemx_script_content \<and>
      board (project loaded) = '''' \<and>
      ioc_file (project loaded) = '''' \<and>
      cleanup_ignore (project loaded) = '''' \<and>
      cleanup_use_git (project loaded) = False \<and>
      inspect_ioc (project loaded) = True)"
proof -
  have absent1: "load w = config_default w" if "environ w ''PIPELINE_WORKSPACE'' = None"
    using that by (simp add: load_def ci_override_def split: sum.splits)
  have absent2: "ci_override w cfg = Inr cfg" if "environ w ''PIPELINE_WORKSPACE'' = None"
    using that by (simp add: ci_override_def)
  have shape: "\<exists>a m. ci_app w = Inr a \<and>
                 c' = \<lparr>app = a,
                       project = (project c)
                         \<lparr>platformio_ini_patch_content :=
                            platformio_ini_patch_content (project c) @ m\<rparr>\<rparr>"
    if "environ w ''PIPELINE_WORKSPACE'' \<noteq> None" and "ci_override w c = Inr c'" for c c'
    using that by (auto simp: ci_override_def split: option.splits sum.splits)
  have ci: "\<exists>folder. environ w ''STM32PIO_CUBEMX_CACHE_FOLDER'' = Some folder \<and>
         app c' = \<lparr>platformio_cmd = ''platformio'',
                   cubemx_cmd = str (flv w) (truediv (flv w) (Path (flv w) folder)
                                                ''STM32CubeMX.exe''),
                   java_cmd = ''java''\<rparr>"
    if "environ w ''PIPELINE_WORKSPACE'' \<noteq> None" and "ci_override w c = Inr c'" for c c'
    using shape [OF that] by (auto simp: ci_app_def split: option.splits)
  have frame: "cubemx_script_content (project c') = cubemx_script_content (project c) \<and>
      board (project c') = board (project c) \<and>
      ioc_file (project c') = ioc_file (project c) \<and>
      cleanup_ignore (project c') = cleanup_ignore (project c) \<and>
      cleanup_use_git (project c') = cleanup_use_git (project c) \<and>
      inspect_ioc (project c') = inspect_ioc (project c)"
    if "environ w ''PIPELINE_WORKSPACE'' \<noteq> None" and "ci_override w c = Inr c'" for c c'
    using shape [OF that] by auto
  have dflt: "\<exists>dflt. config_default w = Inr dflt \<and> ci_override w dflt = Inr loaded \<and>
                project dflt = default_project"
    if "load w = Inr loaded"
    using that by (auto simp: load_def config_default_def split: sum.splits)
  have loaded: "(\<exists>dflt. config_default w = Inr dflt \<and> ci_override w dflt = Inr loaded \<and>
         project dflt = default_project) \<and>
      (\<exists>folder. environ w ''STM32PIO_CUBEMX_CACHE_FOLDER'' = Some folder \<and>
         app loaded = \<lparr>platformio_cmd = ''platformio'',
                       cubemx_cmd = str (flv w) (truediv (flv w) (Path (flv w) folder)
                                                    ''STM32CubeMX.exe''),
                       java_cmd = ''java''\<rparr>) \<and>
      cubemx_script_content (project loaded) = default_cubemx_script_content \<and>
      board (project loaded) = '''' \<and>
      ioc_file (project loaded) = '''' \<and>
      cleanup_ignore (project loaded) = '''' \<and>
      cleanup_use_git (project loaded) = False \<and>
      inspect_ioc (project loaded) = True"
    if m: "environ w ''PIPELINE_WORKSPACE'' \<noteq> None" and l: "load w = Inr loaded"
  proof -
    from dflt [OF l] obtain d where d: "config_default w = Inr d"
      "ci_override w d = Inr loaded" "project d = default_project"
      by blast
    from frame [OF m d(2)] d(3)
    have "cubemx_script_content (project loaded) = default_cubemx_script_content \<and>
      board (project loaded) = '''' \<and>
      ioc_file (project loaded) = '''' \<and>
      cleanup_ignore (project loaded) = '''' \<and>
      cleanup_use_git (project loaded) = False \<and>
      inspect_ioc (project loaded) = True"
      by (simp add: default_project_def)
    with d ci [OF m d(2)] show ?thesis by blast
  qed
  show ?thesis
    using absent1 absent2 ci frame loaded by blast
qed

theorem ci_override_frame_witness:
  "(environ base_world ''PIPELINE_WORKSPACE'' = None \<and>
    (load base_world = config_default base_world \<and>
     ci_override base_world \<lparr>app = \<lparr>platformio_cmd = ''pio'', cubemx_cmd = ''cubemx'',
                                       java_cmd = ''jre''\<rparr>,
                               project = default_project\<rparr>
       = Inr \<lparr>app = \<lparr>platformio_cmd = ''pio'', cubemx_cmd = ''cubemx'', java_cmd = ''jre''\<rparr>,
              project = default_project\<rparr>)) \<and>
   (environ ci_world ''PIPELINE_WORKSPACE'' \<noteq> None \<and>
    ci_override ci_world \<lparr>app = \<lparr>platformio_cmd = ''pio'', cubemx_cmd = ''cubemx'',
                                   java_cmd = ''jre''\<rparr>,
                           project = default_project\<rparr>
      = Inr \<lparr>app = \<lparr>platformio_cmd = ''platformio'', cubemx_cmd = ''/cache/STM32CubeMX.exe'',
                     java_cmd = ''java''\<rparr>,
             project = default_project\<rparr>) \<and>
   (config_default ci_world
      = Inr \<lparr>app = \<lparr>platformio_cmd = ''platformio'',
                     cubemx_cmd = ''/home/user/STM32CubeMX/STM32CubeMX'',
                     java_cmd = ''None''\<rparr>,
             project = default_project\<rparr> \<and>
    load ci_world
      = Inr \<lparr>app = \<lparr>platformio_cmd = ''platformio'', cubemx_cmd = ''/cache/STM32CubeMX.exe'',
                     java_cmd = ''java''\<rparr>,
             project = default_project\<rparr> \<and>
    inspect_ioc (project \<lparr>app = \<lparr>platformio_cmd = ''platformio'',
                                  cubemx_cmd = ''/cache/STM32CubeMX.exe'',
                                  java_cmd = ''java''\<rparr>,
                          project = default_project\<rparr>) = True)"
proof -
  let ?cfg = "\<lparr>app = \<lparr>platformio_cmd = ''pio'', cubemx_cmd = ''cubemx'', java_cmd = ''jre''\<rparr>,
               project = default_project\<rparr>"
  let ?ci = "\<lparr>app = \<lparr>platformio_cmd = ''platformio'',
                         cubemx_cmd = ''/cache/STM32CubeMX.exe'', java_cmd = ''java''\<rparr>,
              project = default_project\<rparr>"
  have a: "environ base_world ''PIPELINE_WORKSPACE'' = None"
    by code_simp
  have b: "load base_world = config_default base_world \<and> ci_override base_world ?cfg = Inr ?cfg"
    by (rule mp [OF conjunct1 [OF ci_override_frame] a])
  have c: "environ ci_world ''PIPELINE_WORKSPACE'' \<noteq> None"
    by code_simp
  have d: "ci_override ci_world ?cfg = Inr ?ci"
    by code_simp
  have e: "config_default ci_world
           = Inr \<lparr>app = \<lparr>platformio_cmd = ''platformio'',
                          cubemx_cmd = ''/home/user/STM32CubeMX/STM32CubeMX'',
                          java_cmd = ''None''\<rparr>,
                  project = default_project\<rparr>"
    by code_simp
  have f: "load ci_world = Inr ?ci"
    by code_simp
  from conjunct2 [OF conjunct2 [OF ci_override_frame [of ci_world _ _ ?ci]]] c f
  have g: "inspect_ioc (project ?ci) = True"
    by blast
  show ?thesis
    by (rule conjI [OF conjI [OF a b] conjI [OF conjI [OF c d] conjI [OF e conjI [OF f g]]]])
qed

text \<open>
  Claim C6, as stated, fails where \<open>Path\<close> is a \<open>WindowsPath\<close>: the joined path is
  written with backslashes.
\<close>

theorem ci_app_windows_counterexample:
  "environ ci_world_nt ''PIPELINE_WORKSPACE'' = Some ''/agent/1'' \<and>
   environ ci_world_nt ''STM32PIO_CUBEMX_CACHE_FOLDER'' = Some ''/cache'' \<and>
   load ci_world_nt
     = Inr \<lparr>app = \<lparr>platformio_cmd = ''platformio'',
                    cubemx_cmd = bslash # ''cache'' @ bslash # ''STM32CubeMX.exe'',
                    java_cmd = ''java''\<rparr>,
            project = default_project\<rparr> \<and>
   bslash # ''cache'' @ bslash # ''STM32CubeMX.exe'' \<noteq> ''/cache/STM32CubeMX.exe''"
  by code_simp

text \<open>
  Claim C6, amended. With the CI marker set and the cache-folder variable set to
  \<open>/cache\<close>, a module that loads has \<open>platformio_cmd = platformio\<close>, \<open>java_cmd = java\<close>
  and, where \<open>os.name\<close> is not \<open>nt\<close>, \<open>cubemx_cmd = /cache/STM32CubeMX.exe\<close>; on
  Windows the same path is written with backslashes.
\<close>

theorem ci_app_section:
  assumes "environ w ''PIPELINE_WORKSPACE'' = Some marker"
    and "environ w ''STM32PIO_CUBEMX_CACHE_FOLDER'' = Some ''/cache''"
    and "load w = Inr cfg"
  shows "platformio_cmd (app cfg) = ''platformio'' \<and>
         java_cmd (app cfg) = ''java'' \<and>
         cubemx_cmd (app cfg) =
           (if os_name w = ''nt'' then bslash # ''cache'' @ bslash # ''STM32CubeMX.exe''
            else ''/cache/STM32CubeMX.exe'')"
proof -
  from assms(3) obtain cfg0 where ov: "ci_override w cfg0 = Inr cfg"
    by (auto simp: load_def split: sum.splits)
  with assms(1) obtain a where a: "ci_app w = Inr a" and "app cfg = a"
    by (auto simp: ci_override_def split: sum.splits)
  with assms(2) have "app cfg = \<lparr>platformio_cmd = ''platformio'',
      cubemx_cmd = str (flv w) (truediv (flv w) (Path (flv w) ''/cache'') ''STM32CubeMX.exe''),
      java_cmd = ''java''\<rparr>"
    by (auto simp: ci_app_def)
  then show ?thesis
    by (simp add: flv_def cache_posix cache_windows)
qed

theorem ci_app_section_witness:
  "environ ci_world ''PIPELINE_WORKSPACE'' = Some ''/agent/1'' \<and>
   environ ci_world ''STM32PIO_CUBEMX_CACHE_FOLDER'' = Some ''/cache'' \<and>
   load ci_world
     = Inr \<lparr>app = \<lparr>platformio_cmd = ''platformio'', cubemx_cmd = ''/cache/STM32CubeMX.exe'',
                    java_cmd = ''java''\<rparr>,
            project = default_project\<rparr> \<and>
   os_name ci_world \<noteq> ''nt'' \<and>
   cubemx_cmd \<lparr>platformio_cmd = ''platformio'', cubemx_cmd = ''/cache/STM32CubeMX.exe'',
               java_cmd = ''java''\<rparr> = ''/cache/STM32CubeMX.exe''"
proof -
  let ?cfg = "\<lparr>app = \<lparr>platformio_cmd = ''platformio'',
                          cubemx_cmd = ''/cache/STM32CubeMX.exe'', java_cmd = ''java''\<rparr>,
               project = default_project\<rparr>"
  have a: "environ ci_world ''PIPELINE_WORKSPACE'' = Some ''/agent/1''"
    by code_simp
  have b: "environ ci_world ''STM32PIO_CUBEMX_CACHE_FOLDER'' = Some ''/cache''"
    by code_simp
  have c: "load ci_world = Inr ?cfg"
    by code_simp
  have d: "os_name ci_world \<noteq> ''nt''"
    by code_simp
  from ci_app_section [OF a b c] d
  have "cubemx_cmd (app ?cfg) = ''/cache/STM32CubeMX.exe''"
    by simp
  then have e: "cubemx_cmd \<lparr>platformio_cmd = ''platformio'',
                  cubemx_cmd = ''/cache/STM32CubeMX.exe'', java_cmd = ''java''\<rparr>
                = ''/cache/STM32CubeMX.exe''"
    by simp
  show ?thesis
    by (rule conjI [OF a conjI [OF b conjI [OF c conjI [OF d e]]]])
qed

text \<open>
  Claim C8, as stated, fails when the fixtures variable is absent: the module then looks
  in the fixtures directory next to itself, and in \<open>fixtures_world\<close> the lock file found
  there is appended.
\<close>

theorem patch_default_fixtures_counterexample:
  "environ fixtures_world ''STM32PIO_TEST_FIXTURES'' = None \<and>
   load fixtures_world
     = Inr \<lparr>app = \<lparr>platformio_cmd = ''platformio'', cubemx_cmd = ''/cache/STM32CubeMX.exe'',
                    java_cmd = ''java''\<rparr>,
            project = default_project
              \<lparr>platformio_ini_patch_content :=
                 default_platformio_ini_patch_content @ [newline, newline] @ lockfile_text\<rparr>\<rparr> \<and>
   default_platformio_ini_patch_content @ [newline, newline] @ lockfile_text
     \<noteq> default_platformio_ini_patch_content"
  by code_simp

text \<open>
  Claim C8, amended. Let the CI marker be set and the CI part complete. The lock file is
  \<open>root/test_case/platformio.ini.lockfile\<close>, where \<open>root\<close> is the value of the fixtures
  variable or, when that is absent, \<open>../../tests/fixtures\<close> under the directory of the
  module. If the test-case variable is set and the lock file exists, its text, after two
  newlines, is appended to \<open>platformio_ini_patch_content\<close>; the content is unchanged
  exactly when the test-case variable is absent or the lock file does not exist.
\<close>

theorem patch_mixin_appended:
  assumes "environ w ''PIPELINE_WORKSPACE'' = Some marker"
    and "ci_override w cfg = Inr cfg'"
  shows "(\<forall>tc. environ w ''STM32PIO_TEST_CASE'' = Some tc \<and>
               path_exists w (platformio_ini_lockfile w tc) = Inr True \<longrightarrow>
            (\<exists>text. read_text w (str (flv w) (platformio_ini_lockfile w tc)) = Inr text \<and>
               platformio_ini_patch_content (project cfg')
                 = platformio_ini_patch_content (project cfg) @ [newline, newline] @ text)) \<and>
         (platformio_ini_patch_content (project cfg')
            = platformio_ini_patch_content (project cfg) \<longleftrightarrow>
          \<not> (\<exists>tc. environ w ''STM32PIO_TEST_CASE'' = Some tc \<and>
                  path_exists w (platformio_ini_lockfile w tc) = Inr True)) \<and>
         (\<forall>tc. platformio_ini_lockfile w tc =
            truediv (flv w)
              (truediv (flv w)
                 (case environ w ''STM32PIO_TEST_FIXTURES'' of
                    Some fixtures \<Rightarrow> Path (flv w) fixtures
                  | None \<Rightarrow>
                      Path_of_path (flv w)
                        (truediv (flv w) (parent (Path (flv w) (module_file w)))
                           ''../../tests/fixtures''))
                 tc)
              ''platformio.ini.lockfile'')"
proof -
  from assms obtain m where pm: "patch_mixin w = Inr m"
    and p: "platformio_ini_patch_content (project cfg')
            = platformio_ini_patch_content (project cfg) @ m"
    by (auto simp: ci_override_def split: sum.splits)
  have app: "\<exists>text. read_text w (str (flv w) (platformio_ini_lockfile w tc)) = Inr text \<and>
               m = [newline, newline] @ text"
    if "environ w ''STM32PIO_TEST_CASE'' = Some tc"
      and "path_exists w (platformio_ini_lockfile w tc) = Inr True" for tc
    using pm that by (auto simp: patch_mixin_def split: sum.splits)
  have emp: "m = ''''"
    if "\<not> (\<exists>tc. environ w ''STM32PIO_TEST_CASE'' = Some tc \<and>
               path_exists w (platformio_ini_lockfile w tc) = Inr True)"
    using pm that by (auto simp: patch_mixin_def split: option.splits sum.splits bool.splits)
  have iff: "m = '''' \<longleftrightarrow>
      \<not> (\<exists>tc. environ w ''STM32PIO_TEST_CASE'' = Some tc \<and>
              path_exists w (platformio_ini_lockfile w tc) = Inr True)"
    using app emp by fastforce
  have lock: "platformio_ini_lockfile w tc =
            truediv (flv w)
              (truediv (flv w)
                 (case environ w ''STM32PIO_TEST_FIXTURES'' of
                    Some fixtures \<Rightarrow> Path (flv w) fixtures
                  | None \<Rightarrow>
                      Path_of_path (flv w)
                        (truediv (flv w) (parent (Path (flv w) (module_file w)))
                           ''../../tests/fixtures''))
                 tc)
              ''platformio.ini.lockfile''" for tc
    by (simp add: platformio_ini_lockfile_def TEST_FIXTURES_PATH_def split: option.splits)
  show ?thesis
  proof (intro conjI allI impI)
    fix tc
    assume "environ w ''STM32PIO_TEST_CASE'' = Some tc \<and>
            path_exists w (platformio_ini_lockfile w tc) = Inr True"
    with app p show "\<exists>text. read_text w (str (flv w) (platformio_ini_lockfile w tc)) = Inr text \<and>
               platformio_ini_patch_content (project cfg')
                 = platformio_ini_patch_content (project cfg) @ [newline, newline] @ text"
      by fastforce
  next
    show "platformio_ini_patch_content (project cfg')
            = platformio_ini_patch_content (project cfg) \<longleftrightarrow>
          \<not> (\<exists>tc. environ w ''STM32PIO_TEST_CASE'' = Some tc \<and>
                  path_exists w (platformio_ini_lockfile w tc) = Inr True)"
      using iff p by simp
  next
    fix tc
    show "platformio_ini_lockfile w tc =
            truediv (flv w)
              (truediv (flv w)
                 (case environ w ''STM32PIO_TEST_FIXTURES'' of
                    Some fixtures \<Rightarrow> Path (flv w) fixtures
                  | None \<Rightarrow>
                      Path_of_path (flv w)
                        (truediv (flv w) (parent (Path (flv w) (module_file w)))
                           ''../../tests/fixtures''))
                 tc)
              ''platformio.ini.lockfile''"
      by (rule lock)
  qed
qed

theorem patch_mixin_appended_witness:
  "environ fixtures_world ''PIPELINE_WORKSPACE'' = Some ''/agent/1'' \<and>
   ci_override fixtures_world
       \<lparr>app = \<lparr>platformio_cmd = ''pio'', cubemx_cmd = ''cubemx'', java_cmd = ''jre''\<rparr>,
        project = default_project\<rparr>
     = Inr \<lparr>app = \<lparr>platformio_cmd = ''platformio'', cubemx_cmd = ''/cache/STM32CubeMX.exe'',
                    java_cmd = ''java''\<rparr>,
            project = default_project
              \<lparr>platformio_ini_patch_content :=
                 default_platformio_ini_patch_content @ [newline, newline] @ lockfile_text\<rparr>\<rparr> \<and>
   (environ fixtures_world ''STM32PIO_TEST_CASE'' = Some ''nucleo_f031k6'' \<and>
    path_exists fixtures_world (platformio_ini_lockfile fixtures_world ''nucleo_f031k6'')
      = Inr True) \<and>
   platformio_ini_patch_content
       (default_project
          \<lparr>platformio_ini_patch_content :=
             default_platformio_ini_patch_content @ [newline, newline] @ lockfile_text\<rparr>)
     \<noteq> platformio_ini_patch_content default_project"
proof -
  let ?cfg = "\<lparr>app = \<lparr>platformio_cmd = ''pio'', cubemx_cmd = ''cubemx'', java_cmd = ''jre''\<rparr>,
               project = default_project\<rparr>"
  let ?cfg' = "\<lparr>app = \<lparr>platformio_cmd = ''platformio'',
                           cubemx_cmd = ''/cache/STM32CubeMX.exe'', java_cmd = ''java''\<rparr>,
                project = default_project
                  \<lparr>platformio_ini_patch_content :=
                     default_platformio_ini_patch_content @ [newline, newline] @ lockfile_text\<rparr>\<rparr>"
  have a: "environ fixtures_world ''PIPELINE_WORKSPACE'' = Some ''/agent/1''"
    by code_simp
  have b: "ci_override fixtures_world ?cfg = Inr ?cfg'"
    by code_simp
  have c: "environ fixtures_world ''STM32PIO_TEST_CASE'' = Some ''nucleo_f031k6'' \<and>
           path_exists fixtures_world (platformio_ini_lockfile fixtures_world ''nucleo_f031k6'')
             = Inr True"
    by code_simp
  have r: "platformio_ini_patch_content (project ?cfg')
             = platformio_ini_patch_content (project ?cfg) \<longleftrightarrow>
           \<not> (\<exists>tc. environ fixtures_world ''STM32PIO_TEST_CASE'' = Some tc \<and>
                   path_exists fixtures_world (platformio_ini_lockfile fixtures_world tc)
                     = Inr True)"
    by (rule conjunct1 [OF conjunct2 [OF patch_mixin_appended [OF a b]]])
  from c have "\<exists>tc. environ fixtures_world ''STM32PIO_TEST_CASE'' = Some tc \<and>
                   path_exists fixtures_world (platformio_ini_lockfile fixtures_world tc)
                     = Inr True"
    by blast
  with r have "platformio_ini_patch_content (project ?cfg')
                 \<noteq> platformio_ini_patch_content (project ?cfg)"
    by blast
  then have d: "platformio_ini_patch_content
       (default_project
          \<lparr>platformio_ini_patch_content :=
             default_platformio_ini_patch_content @ [newline, newline] @ lockfile_text\<rparr>)
     \<noteq> platformio_ini_patch_content default_project"
    by simp
  show ?thesis
    by (rule conjI [OF a conjI [OF b conjI [OF c d]]])
qed

end
